theory Spec2Isabelle
  imports Complex_Main "HOL-Library.Log_Nat"
begin

section \<open>The spy plotting script\<close>

text \<open>
  The script \<^verbatim>\<open>script/spy.py\<close> reads a \<^verbatim>\<open>.spy\<close> file (comment lines, a title, a
  dimension line, one line per nonzero) and draws one coloured square per nonzero.
  Python's unbounded integers are \<^typ>\<open>int\<close>. The script's floating point expressions
  are read in exact arithmetic over \<^typ>\<open>real\<close>: \<open>proc_hue\<close>, \<open>color_of_proc\<close>, \<open>marker_size\<close> and
  \<open>marker_offset\<close> below say what the statements compute when no operation rounds or
  overflows. The interpreter computes in doubles, and the two differ: \<^verbatim>\<open>math.log(2**29, 2)\<close>
  is 29.000000000000004, so that the level of processor 536870911 is 30 and not 29; an
  integer from \<open>2 ^ 1024 - 2 ^ 970\<close> on raises \<^verbatim>\<open>OverflowError\<close> when it meets a float;
  \<^verbatim>\<open>0.5 * (1 - 0.8)\<close> is the double 0.09999999999999998. At the processors 0 to 3 and
  in the sample file the statements of \<^verbatim>\<open>color_of_proc\<close> do not round, so that there the
  exact reading gives the hues and colours of the interpreter.
  The exceptions below are the ones that parsing and the exact reading can raise, each a
  Python \<^verbatim>\<open>ValueError\<close>; the constructors record which statement raised it.
\<close>

datatype error =
    MathDomainError     \<comment> \<open>\<^verbatim>\<open>math.log\<close> of a number that is not positive\<close>
  | InvalidLiteral      \<comment> \<open>\<^verbatim>\<open>int(s)\<close> on a string that is no integer literal\<close>
  | NotEnoughValues     \<comment> \<open>unpacking fewer than three values\<close>
  | TooManyValues       \<comment> \<open>unpacking more than three values\<close>

type_synonym rgb = "real \<times> real \<times> real"

subsection \<open>The colour of a processor\<close>

text \<open>
  Modelled from the spec: \<^verbatim>\<open>matplotlib.colors.hsv_to_rgb\<close> is a library function that
  is not part of the script; the spec names it only as the conversion of
  (hue, saturation, value) to RGB. It is taken here as the usual sextant conversion, which
  is what the library computes for a hue in the unit interval.
\<close>

definition hsv_to_rgb :: "real \<times> real \<times> real \<Rightarrow> rgb" where
  "hsv_to_rgb hsv =
     (case hsv of (h, s, v) \<Rightarrow>
        let i = \<lfloor>h * 6\<rfloor>;
            f = h * 6 - of_int i;
            p = v * (1 - s);
            q = v * (1 - s * f);
            t = v * (1 - s * (1 - f))
        in if s = 0 then (v, v, v)
           else if i mod 6 = 0 then (v, t, p)
           else if i mod 6 = 1 then (q, v, p)
           else if i mod 6 = 2 then (p, v, t)
           else if i mod 6 = 3 then (p, q, v)
           else if i mod 6 = 4 then (t, p, v)
           else (v, p, q))"

text \<open>
  \<^verbatim>\<open>proc_hue\<close> is the value of the local variable \<^verbatim>\<open>color\<close> of \<^verbatim>\<open>color_of_proc\<close> at its
  \<^verbatim>\<open>return\<close>, in exact arithmetic: the statements of the function body, one binding each,
  with the exact logarithm and exact quotients.
\<close>

definition proc_hue :: "int \<Rightarrow> real" where
  "proc_hue proc =
     (let level = \<lceil>log 2 (of_int (proc + 1))\<rceil>;
          denumerator = (2::int) ^ nat level;
          numerator = 1 + (of_int proc - of_int denumerator / 2) * 2;
          color = numerator / of_int denumerator;
          color = color - 0.5
      in if color < 0.0 then color + 1.0 else color)"

text \<open>
  The function in exact arithmetic. \<^verbatim>\<open>math.log\<close> raises for an argument that is not
  positive; the \<^verbatim>\<open>OverflowError\<close> that doubles bring for very large ids is no part of the
  exact reading.
\<close>

definition color_of_proc :: "int \<Rightarrow> error + rgb" where
  "color_of_proc proc =
     (if proc + 1 \<le> 0 then Inl MathDomainError
      else Inr (hsv_to_rgb (proc_hue proc, 1, 1)))"

text \<open>The algorithm as the specification words it, steps 1 to 5.\<close>

definition spec_hue :: "int \<Rightarrow> real" where
  "spec_hue proc =
     (let level = \<lceil>log 2 (of_int proc + 1)\<rceil>;
          denominator = 2 powr (of_int level);
          numerator = 1 + (of_int proc - denominator / 2) * 2;
          raw_fraction = numerator / denominator;
          hue = raw_fraction - 0.5
      in if hue < 0 then hue + 1.0 else hue)"

text \<open>
  The value of the local variable \<^verbatim>\<open>level\<close> of \<^verbatim>\<open>color_of_proc\<close>, in exact arithmetic.
\<close>

definition proc_level :: "int \<Rightarrow> int" where
  "proc_level proc = \<lceil>log 2 (of_int (proc + 1))\<rceil>"

text \<open>
  The statements of \<^verbatim>\<open>color_of_proc\<close> after the first one, for a given value of the
  variable \<^verbatim>\<open>level\<close>: what the function computes from the level that it has found.
\<close>

definition hue_from_level :: "int \<Rightarrow> int \<Rightarrow> real" where
  "hue_from_level level proc =
     (let denumerator = (2::int) ^ nat level;
          numerator = 1 + (of_int proc - of_int denumerator / 2) * 2;
          color = numerator / of_int denumerator;
          color = color - 0.5
      in if color < 0.0 then color + 1.0 else color)"

text \<open>
  The fraction \<^verbatim>\<open>numerator / denumerator\<close> written with the level as a natural number
  (\<open>ceillog2\<close> is the integer form of \<^verbatim>\<open>ceil(log(n, 2))\<close>), and the distance of two hues on
  the hue circle; both are used to state and prove properties only.
\<close>

definition raw_fraction :: "int \<Rightarrow> real" where
  "raw_fraction p = (2 * of_int p + 1) / 2 ^ ceillog2 (nat (p + 1)) - 1"



subsection \<open>Lines, tokens and integer literals\<close>

text \<open>
  The open file \<^verbatim>\<open>fin\<close> is the text that has not been read yet, as text mode delivers
  it (line ends already translated to the newline character). \<^verbatim>\<open>fin.readline()\<close>
  returns the next line with its newline character, and the empty string once the text is
  used up; the text that remains is returned with it.
\<close>

fun readline :: "string \<Rightarrow> string \<times> string" where
  "readline [] = ([], [])"
| "readline (c # cs) =
     (if c = CHR 0x0A then ([c], cs)
      else (case readline cs of (line, fin) \<Rightarrow> (c # line, fin)))"

text \<open>
  \<^verbatim>\<open>s.split(' ')\<close> cuts at every single space: two spaces in a row give an empty
  token, other white space is no separator, and the result is never empty.
\<close>

fun split_sp :: "string \<Rightarrow> string list" where
  "split_sp [] = [[]]"
| "split_sp (c # cs) =
     (if c = CHR 0x20 then [] # split_sp cs
      else (c # hd (split_sp cs)) # tl (split_sp cs))"

text \<open>
  \<^verbatim>\<open>int(s)\<close> on a string. A character is a code point below 256. The white space
  that \<^verbatim>\<open>int\<close> drops around the literal is tab, newline, vertical tab, form feed,
  carriage return and space, and of the other code points the white space ones, which
  below 256 are 0x85 and 0xA0; the separators 0x1C to 0x1F are not dropped. Then come an
  optional sign and decimal digits, where single underscores may stand between digits;
  more than 4300 digits are refused (the limit of Python 3.11).
\<close>

definition is_space :: "char \<Rightarrow> bool" where
  "is_space c = ((of_char c :: nat) \<in> {9, 10, 11, 12, 13, 32, 133, 160})"

definition is_digit :: "char \<Rightarrow> bool" where
  "is_digit c = (48 \<le> (of_char c :: nat) \<and> (of_char c :: nat) \<le> 57)"

definition digit_val :: "char \<Rightarrow> int" where
  "digit_val c = int (of_char c) - 48"

definition strip :: "string \<Rightarrow> string" where
  "strip s = rev (dropWhile is_space (rev (dropWhile is_space s)))"

fun digits_from :: "int \<Rightarrow> string \<Rightarrow> int option" where
  "digits_from acc [] = Some acc"
| "digits_from acc [c] = (if is_digit c then Some (10 * acc + digit_val c) else None)"
| "digits_from acc (c # d # cs) =
     (if is_digit c then digits_from (10 * acc + digit_val c) (d # cs)
      else if c = CHR ''_'' \<and> is_digit d then digits_from (10 * acc + digit_val d) cs
      else None)"

definition py_digits :: "string \<Rightarrow> int option" where
  "py_digits s =
     (case s of [] \<Rightarrow> None
      | c # cs \<Rightarrow>
          if is_digit c \<and> length (filter is_digit s) \<le> 4300
          then digits_from (digit_val c) cs else None)"

definition py_int :: "string \<Rightarrow> int option" where
  "py_int s =
     (case strip s of [] \<Rightarrow> None
      | c # cs \<Rightarrow>
          if c = CHR ''-'' then map_option uminus (py_digits cs)
          else if c = CHR ''+'' then py_digits cs
          else py_digits (c # cs))"

text \<open>
  \<^verbatim>\<open>a, b, c = map(int, tokens)\<close>: the tokens are converted one at a time as the
  unpacking asks for them; it asks for a fourth one to see that there is none.
\<close>

fun unpack3 :: "string list \<Rightarrow> error + (int \<times> int \<times> int)" where
  "unpack3 (a # b # c # rest) =
     (case py_int a of None \<Rightarrow> Inl InvalidLiteral | Some i \<Rightarrow>
      case py_int b of None \<Rightarrow> Inl InvalidLiteral | Some j \<Rightarrow>
      case py_int c of None \<Rightarrow> Inl InvalidLiteral | Some p \<Rightarrow>
        (case rest of [] \<Rightarrow> Inr (i, j, p)
         | d # _ \<Rightarrow>
             (case py_int d of None \<Rightarrow> Inl InvalidLiteral
              | Some _ \<Rightarrow> Inl TooManyValues)))"
| "unpack3 [a, b] =
     (case py_int a of None \<Rightarrow> Inl InvalidLiteral | Some _ \<Rightarrow>
      case py_int b of None \<Rightarrow> Inl InvalidLiteral | Some _ \<Rightarrow> Inl NotEnoughValues)"
| "unpack3 [a] =
     (case py_int a of None \<Rightarrow> Inl InvalidLiteral | Some _ \<Rightarrow> Inl NotEnoughValues)"
| "unpack3 [] = Inl NotEnoughValues"

subsection \<open>The main block\<close>

text \<open>The two constants, in exact arithmetic.\<close>

definition marker_size :: real where
  "marker_size = 0.8"

definition marker_offset :: real where
  "marker_offset = 0.5 * (1 - marker_size)"

text \<open>A \<^verbatim>\<open>patches.Rectangle(xy, width, height, color=...)\<close> added to the axes.\<close>

record patch =
  xy :: "real \<times> real"
  width :: real
  height :: real
  color :: rgb

text \<open>
  What the main block has computed when it reaches \<^verbatim>\<open>plt.show()\<close>: the variables
  \<^verbatim>\<open>title\<close>, \<^verbatim>\<open>m\<close>, \<^verbatim>\<open>n\<close>, \<^verbatim>\<open>nz\<close> (here \<open>rows\<close>, \<open>cols\<close>, \<open>nonzero_count\<close>), the axis
  limits, the values that the loop bound to \<^verbatim>\<open>i, j, p\<close> in turn, and the rectangles
  in the order they were added.
\<close>

record figure =
  title :: string
  rows :: int
  cols :: int
  nonzero_count :: int
  xlim :: "real \<times> real"
  ylim :: "real \<times> real"
  entries :: "(int \<times> int \<times> int) list"
  patches :: "patch list"

text \<open>
  The loop that looks for the title. At the end of the text \<^verbatim>\<open>readline\<close> keeps
  returning the empty string, for which the loop condition holds: the loop need not
  end, so its result is optional and \<open>None\<close> stands for running forever.
\<close>

partial_function (option) skip_comments :: "string \<Rightarrow> string \<Rightarrow> (string \<times> string) option" where
  "skip_comments line fin =
     (if length line = 0 \<or> hd line = CHR ''#''
      then skip_comments (fst (readline fin)) (snd (readline fin))
      else Some (line, fin))"

text \<open>The body of the \<^verbatim>\<open>for\<close> loop on one line: the entry and its rectangle.\<close>

definition draw_entry :: "string \<Rightarrow> error + ((int \<times> int \<times> int) \<times> patch)" where
  "draw_entry line =
     (case unpack3 (split_sp line) of Inl e \<Rightarrow> Inl e
      | Inr (i, j, p) \<Rightarrow>
          (case color_of_proc p of Inl e \<Rightarrow> Inl e
           | Inr c \<Rightarrow>
               Inr ((i, j, p),
                    \<lparr>xy = (of_int j + marker_offset, of_int i + marker_offset),
                     width = marker_size, height = marker_size, color = c\<rparr>)))"

text \<open>\<^verbatim>\<open>for _ in range(0, nz)\<close>: one line per round, stopping at the first exception.\<close>

fun draw_entries :: "nat \<Rightarrow> string \<Rightarrow> error + ((int \<times> int \<times> int) \<times> patch) list" where
  "draw_entries 0 fin = Inr []"
| "draw_entries (Suc k) fin =
     (case draw_entry (fst (readline fin)) of Inl e \<Rightarrow> Inl e
      | Inr ep \<Rightarrow>
          (case draw_entries k (snd (readline fin)) of Inl e \<Rightarrow> Inl e
           | Inr eps \<Rightarrow> Inr (ep # eps)))"

text \<open>
  The block from \<^verbatim>\<open>with open(...)\<close> on, for a file with the given text: \<open>None\<close> when it
  never ends, an error when an exception leaves it, the figure otherwise. The calls of the
  plotting library are taken to succeed. The loop before the block, which calls
  \<^verbatim>\<open>color_of_proc\<close> on 0 to 99 and drops the results, has no effect. Colours and
  positions are those of the exact reading.
\<close>

definition spy :: "string \<Rightarrow> (error + figure) option" where
  "spy text =
     (case skip_comments (fst (readline text)) (snd (readline text)) of
        None \<Rightarrow> None
      | Some (line, fin) \<Rightarrow>
          Some (case unpack3 (split_sp (fst (readline fin))) of Inl e \<Rightarrow> Inl e
                | Inr (m, n, nz) \<Rightarrow>
                    (case draw_entries (nat nz) (snd (readline fin)) of Inl e \<Rightarrow> Inl e
                     | Inr eps \<Rightarrow>
                         Inr \<lparr>title = line, rows = m, cols = n, nonzero_count = nz,
                              xlim = (1, of_int n), ylim = (of_int m, 1),
                              entries = map fst eps, patches = map snd eps\<rparr>)))"

subsection \<open>Notions used to state properties of the parser\<close>

text \<open>The text of a file with the given lines, each ended by a newline character.\<close>

definition file_text :: "string list \<Rightarrow> string" where
  "file_text ls = concat (map (\<lambda>l. l @ [CHR 0x0A]) ls)"

text \<open>The line that the \<open>k\<close>-th further call of \<^verbatim>\<open>readline\<close> returns, counting from 0.\<close>

fun nth_line :: "nat \<Rightarrow> string \<Rightarrow> string" where
  "nth_line 0 fin = fst (readline fin)"
| "nth_line (Suc k) fin = nth_line k (snd (readline fin))"

text \<open>
  The number of fields of a line that are separated by the white space of \<^verbatim>\<open>int\<close>; the
  flag says that the character before was part of a field.
\<close>

fun nfields :: "bool \<Rightarrow> string \<Rightarrow> nat" where
  "nfields in_field [] = 0"
| "nfields in_field (c # cs) =
     (if is_space c then nfields False cs
      else (if in_field then 0 else 1) + nfields True cs)"

text \<open>
  Every line of the text starts with \<^verbatim>\<open>#\<close>; the flag says that the next character
  starts a line.
\<close>

fun comments_only :: "bool \<Rightarrow> string \<Rightarrow> bool" where
  "comments_only at_start [] = True"
| "comments_only at_start (c # cs) =
     ((at_start \<longrightarrow> c = CHR ''#'') \<and> comments_only (c = CHR 0x0A) cs)"

text \<open>The tokens joined by single spaces again.\<close>

fun join_sp :: "string list \<Rightarrow> string" where
  "join_sp [] = []"
| "join_sp [t] = t"
| "join_sp (t # u # ts) = t @ CHR 0x20 # join_sp (u # ts)"

text \<open>
  The sample file of the specification, and a file that announces five entries and holds
  three.
\<close>

definition sample :: string where
  "sample = file_text [''# test'', ''Title'', ''3 3 2'', ''1 1 0'', ''2 2 1'']"

definition short_sample :: string where
  "short_sample = file_text [''Title'', ''5 5 5'', ''1 1 0'', ''2 2 1'', ''3 3 2'']"

section \<open>Properties of the colour of a processor\<close>

lemma level_ceillog2:
  "0 \<le> p \<Longrightarrow> \<lceil>log 2 (of_int (p + 1))\<rceil> = int (ceillog2 (nat (p + 1)))"
proof -
  assume p: "0 \<le> p"
  then have r: "real (nat (p + 1)) = of_int (p + 1)" by simp
  have "1 \<le> (of_int (p + 1) :: real)" using p by linarith
  then have "0 \<le> log 2 (of_int (p + 1))" by simp
  then have "0 \<le> \<lceil>log 2 (of_int (p + 1))\<rceil>" by linarith
  moreover have "nat (p + 1) \<noteq> 0" using p by simp
  ultimately show ?thesis
    unfolding ceillog2_def r by simp
qed


lemma raw_alg: "0 < d \<Longrightarrow> (1 + (x - d / 2) * 2) / d = (2 * x + 1) / d - (1::real)"
  by (simp add: field_simps)

lemma proc_hue_raw:
  assumes p: "0 \<le> p"
  shows "proc_hue p =
     (if raw_fraction p - 1/2 < 0 then raw_fraction p - 1/2 + 1 else raw_fraction p - 1/2)"
proof -
  have d: "(0::real) < 2 ^ ceillog2 (nat (p + 1))" by simp
  show ?thesis
    unfolding proc_hue_def raw_fraction_def Let_def level_ceillog2[OF p] nat_int of_int_power
      of_int_numeral raw_alg[OF d]
    by simp
qed

lemma spec_hue_raw:
  assumes p: "0 \<le> p"
  shows "spec_hue p =
     (if raw_fraction p - 1/2 < 0 then raw_fraction p - 1/2 + 1 else raw_fraction p - 1/2)"
proof -
  have d: "(0::real) < 2 ^ ceillog2 (nat (p + 1))" by simp
  have e: "of_int p + 1 = (of_int (p + 1) :: real)" by simp
  have f: "2 powr real_of_int (int (ceillog2 (nat (p + 1)))) = (2::real) ^ ceillog2 (nat (p + 1))"
    by (simp add: powr_realpow)
  show ?thesis
    unfolding spec_hue_def raw_fraction_def Let_def e level_ceillog2[OF p] f raw_alg[OF d]
    by simp
qed










lemma hsv_half: "hsv_to_rgb (1/2, 1, 1) = (0, 1, 1)"
  unfolding hsv_to_rgb_def by simp

lemma hsv_zero: "hsv_to_rgb (0, 1, 1) = (1, 0, 0)"
  unfolding hsv_to_rgb_def by simp

lemma ceillog2_small:
  "ceillog2 3 = 2" "ceillog2 4 = 2" "ceillog2 6 = 3"
  by (rule ceillog2_eqI; simp)+

lemma proc_hue_values:
  "proc_hue 0 = 1/2" "proc_hue 1 = 0" "proc_hue 2 = 3/4" "proc_hue 3 = 1/4"
  by (simp_all add: proc_hue_raw raw_fraction_def ceillog2_small)



lemma color_of_proc_nonneg:
  "0 \<le> p \<Longrightarrow> color_of_proc p = Inr (hsv_to_rgb (proc_hue p, 1, 1))"
  unfolding color_of_proc_def by simp

lemma proc_hue_from_level: "proc_hue proc = hue_from_level (proc_level proc) proc"
  unfolding proc_hue_def hue_from_level_def proc_level_def Let_def by (rule refl)

lemma ceillog2_2_29: "ceillog2 536870912 = 29"
  by (rule ceillog2_eqI) simp_all

lemma spec_hue_536870911: "spec_hue 536870911 = 268435455 / 536870912"
  by (simp add: spec_hue_raw raw_fraction_def ceillog2_2_29)

lemma hue_from_level_536870911: "hue_from_level 30 536870911 = 536870911 / 1073741824"
  by (simp add: hue_from_level_def)


text \<open>
  C1 does not hold of the function for processor 536870911. In doubles
  \<^verbatim>\<open>math.log(2**29, 2)\<close> is 29.000000000000004, so that the function finds level 30 where
  the specification's step 1 gives level 29. From level 30 the remaining statements, none
  of which rounds at this input, compute the hue 536870911/1073741824; the
  specification's steps compute 268435455/536870912.
\<close>

theorem level_30_hue_differs_from_spec:
  "hue_from_level 30 536870911 = 536870911 / 1073741824
   \<and> spec_hue 536870911 = 268435455 / 536870912
   \<and> hue_from_level 30 536870911 \<noteq> spec_hue 536870911"
  by (simp add: hue_from_level_536870911 spec_hue_536870911)




section \<open>Properties of the parser and of the drawing\<close>

lemma comments_only_rest:
  "comments_only b s \<Longrightarrow> comments_only True (snd (readline s))"
  by (induction s arbitrary: b) (auto split: prod.splits)

lemma readline_first:
  "fst (readline (c # cs)) \<noteq> [] \<and> hd (fst (readline (c # cs))) = c"
  by (auto split: prod.splits)

lemma comments_only_line:
  assumes "comments_only True s"
  shows "fst (readline s) = [] \<or> hd (fst (readline s)) = CHR ''#''"
proof (cases s)
  case Nil
  then show ?thesis by simp
next
  case (Cons c cs)
  with assms have "c = CHR ''#''" by simp
  then show ?thesis using readline_first[of c cs] unfolding Cons by simp
qed

lemma skip_comments_diverges:
  assumes "line = [] \<or> hd line = CHR ''#''" and "comments_only True fin"
  shows "skip_comments line fin = None"
proof -
  let ?stuck = "\<lambda>(l::string) (r::string). (l = [] \<or> hd l = CHR ''#'') \<and> comments_only True r"
  have "\<not> ?stuck l r" if s: "skip_comments l r = Some y" for l r y
  proof (rule skip_comments.raw_induct[where P = "\<lambda>l r y. \<not> ?stuck l r", OF _ s])
    fix f :: "string \<Rightarrow> string \<Rightarrow> (string \<times> string) option" and l r :: string
      and y :: "string \<times> string"
    assume IH: "\<And>l' r' y'. f l' r' = Some y' \<Longrightarrow> \<not> ?stuck l' r'"
      and eq: "(if length l = 0 \<or> hd l = CHR ''#''
                then f (fst (readline r)) (snd (readline r)) else Some (l, r)) = Some y"
    show "\<not> ?stuck l r"
    proof
      assume a: "?stuck l r"
      then have "f (fst (readline r)) (snd (readline r)) = Some y"
        using eq by auto
      then have "\<not> ?stuck (fst (readline r)) (snd (readline r))" by (rule IH)
      moreover have "?stuck (fst (readline r)) (snd (readline r))"
        using a comments_only_line[of r] comments_only_rest[of True r] by blast
      ultimately show False by blast
    qed
  qed
  with assms show ?thesis by (cases "skip_comments line fin") auto
qed

lemma skip_comments_hash:
  "skip_comments (CHR ''#'' # l) fin = skip_comments (fst (readline fin)) (snd (readline fin))"
  by (subst skip_comments.simps) simp

lemma spy_comments_only:
  assumes "comments_only True text"
  shows "spy text = None"
  unfolding spy_def
  using skip_comments_diverges[OF comments_only_line[OF assms] comments_only_rest[OF assms]]
  by simp

lemmas literal_defs = py_int_def strip_def is_space_def py_digits_def is_digit_def digit_val_def

lemma color_of_proc_0: "color_of_proc 0 = Inr (0, 1, 1)"
  by (simp add: color_of_proc_nonneg proc_hue_values hsv_half)

lemma color_of_proc_1: "color_of_proc 1 = Inr (1, 0, 0)"
  by (simp add: color_of_proc_nonneg proc_hue_values hsv_zero)

lemma marker_values: "marker_size = 4 / 5" "marker_offset = 1 / 10"
  by (simp_all add: marker_size_def marker_offset_def)

lemma sample_title:
  "skip_comments (fst (readline sample)) (snd (readline sample)) =
     Some (''Title'' @ [CHR 0x0A], file_text [''3 3 2'', ''1 1 0'', ''2 2 1''])"
  by (simp add: sample_def skip_comments.simps file_text_def)

lemma sample_dims:
  "unpack3 (split_sp (fst (readline (file_text [''3 3 2'', ''1 1 0'', ''2 2 1''])))) = Inr (3, 3, 2)"
  by (simp add: file_text_def literal_defs)

lemma sample_entries:
  "draw_entries 2 (snd (readline (file_text [''3 3 2'', ''1 1 0'', ''2 2 1'']))) =
     Inr [((1, 1, 0), \<lparr>xy = (11 / 10, 11 / 10), width = 4 / 5, height = 4 / 5, color = (0, 1, 1)\<rparr>),
          ((2, 2, 1), \<lparr>xy = (21 / 10, 21 / 10), width = 4 / 5, height = 4 / 5, color = (1, 0, 0)\<rparr>)]"
  by (simp add: file_text_def numeral_2_eq_2 draw_entry_def literal_defs
      color_of_proc_0 color_of_proc_1 marker_values)

lemma spy_sample:
  "spy sample = Some (Inr
     \<lparr>title = ''Title'' @ [CHR 0x0A], rows = 3, cols = 3, nonzero_count = 2,
      xlim = (1, 3), ylim = (3, 1),
      entries = [(1, 1, 0), (2, 2, 1)],
      patches =
        [\<lparr>xy = (11 / 10, 11 / 10), width = 4 / 5, height = 4 / 5, color = (0, 1, 1)\<rparr>,
         \<lparr>xy = (21 / 10, 21 / 10), width = 4 / 5, height = 4 / 5, color = (1, 0, 0)\<rparr>]\<rparr>)"
  unfolding spy_def sample_title by (simp add: sample_dims sample_entries)

lemma unpack3_Inr:
  assumes "unpack3 toks = Inr (i, j, p)"
  shows "\<exists>a b c. toks = [a, b, c] \<and> py_int a = Some i \<and> py_int b = Some j \<and> py_int c = Some p"
  using assms
  by (cases toks rule: unpack3.cases) (auto split: option.splits list.splits)

lemma split_sp_nonempty: "split_sp s \<noteq> []"
  by (cases s) auto

lemma join_sp_Cons: "join_sp ((c # t) # ts) = c # join_sp (t # ts)"
  by (cases ts) auto

lemma join_split_sp: "join_sp (split_sp s) = s"
proof (induction s)
  case Nil
  show ?case by simp
next
  case (Cons c cs)
  obtain t ts where ts: "split_sp cs = t # ts"
    using split_sp_nonempty[of cs] by (cases "split_sp cs") auto
  show ?case
  proof (cases "c = CHR 0x20")
    case True
    then show ?thesis using Cons ts by simp
  next
    case False
    then show ?thesis using Cons ts by (simp add: join_sp_Cons)
  qed
qed

lemma draw_entry_fails:
  assumes "unpack3 (split_sp line) = Inl e"
  shows "draw_entry line = Inl e"
  using assms unfolding draw_entry_def by simp

lemma draw_entries_fails:
  assumes "k < n" and "draw_entry (nth_line k fin) = Inl e"
  shows "\<exists>e'. draw_entries n fin = Inl e'"
  using assms
proof (induction n arbitrary: k fin)
  case 0
  then show ?case by simp
next
  case (Suc n)
  show ?case
  proof (cases k)
    case 0
    with Suc.prems show ?thesis by simp
  next
    case (Suc k')
    with Suc.prems have "k' < n" and "draw_entry (nth_line k' (snd (readline fin))) = Inl e"
      by simp_all
    from Suc.IH[OF this] obtain e' where "draw_entries n (snd (readline fin)) = Inl e'" ..
    then show ?thesis by (simp split: sum.splits)
  qed
qed

lemma digit_not_space: "is_digit c \<Longrightarrow> \<not> is_space c"
  unfolding is_digit_def is_space_def by auto

lemma digits_from_no_space:
  "digits_from a s = Some v \<Longrightarrow> \<forall>c\<in>set s. \<not> is_space c"
proof (induction a s rule: digits_from.induct)
  case (1 a)
  show ?case by simp
next
  case (2 a c)
  then show ?case by (auto split: if_splits dest: digit_not_space)
next
  case (3 a c d cs)
  have u: "\<not> is_space (CHR ''_'')" by (simp add: is_space_def)
  show ?case
  proof (cases "is_digit c")
    case True
    with 3 show ?thesis by (auto dest: digit_not_space)
  next
    case False
    with "3.prems" have c: "c = CHR ''_''" and d: "is_digit d"
      and r: "digits_from (10 * a + digit_val d) cs = Some v"
      by (auto split: if_splits)
    from "3.IH"(2)[OF False] c d r have "\<forall>c\<in>set cs. \<not> is_space c" by simp
    with c d u show ?thesis by (auto dest: digit_not_space)
  qed
qed

lemma py_digits_no_space:
  "py_digits s = Some v \<Longrightarrow> s \<noteq> [] \<and> (\<forall>c\<in>set s. \<not> is_space c)"
  unfolding py_digits_def
  by (auto split: list.splits if_splits dest: digit_not_space digits_from_no_space)

lemma py_int_core:
  assumes "py_int t = Some v"
  shows "strip t \<noteq> [] \<and> (\<forall>c\<in>set (strip t). \<not> is_space c)"
proof -
  have m: "\<not> is_space (CHR ''-'')" and p: "\<not> is_space (CHR ''+'')"
    by (simp_all add: is_space_def)
  from assms obtain c cs where s: "strip t = c # cs"
    unfolding py_int_def by (cases "strip t") auto
  consider (neg) "c = CHR ''-''" | (pos) "c \<noteq> CHR ''-''" "c = CHR ''+''"
    | (none) "c \<noteq> CHR ''-''" "c \<noteq> CHR ''+''" by blast
  then have "\<forall>x\<in>set (c # cs). \<not> is_space x"
  proof cases
    case neg
    with assms s obtain w where "py_digits cs = Some w" unfolding py_int_def by auto
    from py_digits_no_space[OF this] neg m show ?thesis by simp
  next
    case pos
    with assms s have "py_digits cs = Some v" unfolding py_int_def by auto
    from py_digits_no_space[OF this] pos p show ?thesis by simp
  next
    case none
    with assms s have "py_digits (c # cs) = Some v" unfolding py_int_def by auto
    from py_digits_no_space[OF this] show ?thesis by simp
  qed
  with s show ?thesis by simp
qed

lemma strip_decomp:
  "\<exists>pre post. t = pre @ strip t @ post \<and> (\<forall>c\<in>set pre. is_space c) \<and> (\<forall>c\<in>set post. is_space c)"
proof -
  let ?u = "dropWhile is_space t"
  have a: "t = takeWhile is_space t @ ?u" by simp
  have "rev ?u = takeWhile is_space (rev ?u) @ dropWhile is_space (rev ?u)" by simp
  then have "rev (rev ?u) = rev (takeWhile is_space (rev ?u) @ dropWhile is_space (rev ?u))"
    by (rule arg_cong)
  then have b: "?u = strip t @ rev (takeWhile is_space (rev ?u))"
    unfolding strip_def by (simp only: rev_rev_ident rev_append)
  have "t = takeWhile is_space t @ strip t @ rev (takeWhile is_space (rev ?u))"
    using a b by metis
  moreover have "\<forall>c\<in>set (takeWhile is_space t). is_space c"
    by (auto dest: set_takeWhileD)
  moreover have "\<forall>c\<in>set (rev (takeWhile is_space (rev ?u))). is_space c"
    by (auto dest: set_takeWhileD)
  ultimately show ?thesis by blast
qed

lemma nfields_spaces:
  "\<forall>c\<in>set xs. is_space c \<Longrightarrow> nfields False (xs @ ys) = nfields False ys"
  by (induction xs) auto

lemma nfields_no_space_True:
  "\<forall>c\<in>set xs. \<not> is_space c \<Longrightarrow> nfields True (xs @ ys) = nfields True ys"
  by (induction xs) auto

lemma nfields_no_space_False:
  "\<forall>c\<in>set xs. \<not> is_space c \<Longrightarrow> xs \<noteq> [] \<Longrightarrow> nfields False (xs @ ys) = 1 + nfields True ys"
  by (cases xs) (auto simp: nfields_no_space_True)

lemma nfields_after_field:
  "ys = [] \<or> is_space (hd ys) \<Longrightarrow> nfields True ys = nfields False ys"
  by (cases ys) auto

lemma nfields_token:
  assumes t: "py_int t = Some v" and ys: "ys = [] \<or> is_space (hd ys)"
  shows "nfields False (t @ ys) = 1 + nfields False ys"
proof -
  obtain pre post where d: "t = pre @ strip t @ post"
    and pre: "\<forall>c\<in>set pre. is_space c" and post: "\<forall>c\<in>set post. is_space c"
    using strip_decomp[of t] by blast
  note core = py_int_core[OF t]
  have e: "post @ ys = [] \<or> is_space (hd (post @ ys))"
    using ys post by (cases post) auto
  have "t @ ys = pre @ (strip t @ (post @ ys))"
    using d by (metis append.assoc)
  then have "nfields False (t @ ys) = nfields False (pre @ (strip t @ (post @ ys)))"
    by (rule arg_cong)
  also have "\<dots> = nfields False (strip t @ (post @ ys))"
    using pre by (rule nfields_spaces)
  also have "\<dots> = 1 + nfields True (post @ ys)"
    by (rule nfields_no_space_False) (use core in simp_all)
  also have "\<dots> = 1 + nfields False (post @ ys)"
    using nfields_after_field[OF e] by simp
  also have "\<dots> = 1 + nfields False ys"
    using nfields_spaces[OF post] by simp
  finally show ?thesis .
qed

lemma space_is_space: "is_space (CHR 0x20)"
  by (simp add: is_space_def)

lemma unpack3_nfields:
  assumes "unpack3 (split_sp line) = Inr (i, j, p)"
  shows "nfields False line = 3"
proof -
  from unpack3_Inr[OF assms] obtain a b c where
    toks: "split_sp line = [a, b, c]"
    and a: "py_int a = Some i" and b: "py_int b = Some j" and c: "py_int c = Some p"
    by blast
  have "line = join_sp (split_sp line)" by (simp only: join_split_sp)
  then have line: "line = a @ (CHR 0x20 # (b @ (CHR 0x20 # c)))"
    unfolding toks by simp
  have sp: "nfields False (CHR 0x20 # s) = nfields False s" for s
    using space_is_space by simp
  have "nfields False (c @ []) = 1 + nfields False []"
    using c by (rule nfields_token) simp
  then have nc: "nfields False c = 1" by simp
  have nb: "nfields False (b @ (CHR 0x20 # c)) = 1 + nfields False (CHR 0x20 # c)"
    using b by (rule nfields_token) (simp add: space_is_space)
  have na: "nfields False (a @ (CHR 0x20 # (b @ (CHR 0x20 # c)))) =
      1 + nfields False (CHR 0x20 # (b @ (CHR 0x20 # c)))"
    using a by (rule nfields_token) (simp add: space_is_space)
  show ?thesis unfolding line na sp nb nc by simp
qed

lemma unpack3_tokens:
  assumes "unpack3 (split_sp line) = Inr (i, j, p)"
  shows "\<forall>t\<in>set (split_sp line). py_int t \<noteq> None"
  using unpack3_Inr[OF assms] by auto

lemma unpack3_end_of_text: "unpack3 (split_sp []) = Inl InvalidLiteral"
  by (simp add: literal_defs)

lemma malformed_line_fails:
  assumes "line = [] \<or> nfields False line < 3 \<or> (\<exists>t\<in>set (split_sp line). py_int t = None)"
  shows "\<exists>e. draw_entry line = Inl e"
proof (cases "unpack3 (split_sp line)")
  case (Inl e)
  then show ?thesis using draw_entry_fails by blast
next
  case (Inr v)
  obtain i j p where v: "v = (i, j, p)" by (cases v) auto
  note ok = Inr[unfolded v]
  from assms consider "line = []" | "nfields False line < 3"
    | "\<exists>t\<in>set (split_sp line). py_int t = None" by blast
  then have False
  proof cases
    case 1
    then show False using ok unpack3_end_of_text by simp
  next
    case 2
    then show False using unpack3_nfields[OF ok] by simp
  next
    case 3
    then show False using unpack3_tokens[OF ok] by blast
  qed
  then show ?thesis ..
qed

lemma spy_data_fails:
  assumes t: "skip_comments (fst (readline text)) (snd (readline text)) = Some (line, fin)"
    and d: "unpack3 (split_sp (fst (readline fin))) = Inr (m, n, nz)"
    and e: "draw_entries (nat nz) (snd (readline fin)) = Inl e"
  shows "spy text = Some (Inl e)"
  unfolding spy_def t using d e by simp

text \<open>
  C4 does not hold of the loop: a line read by \<^verbatim>\<open>readline\<close> keeps its newline
  character, so a blank line has length 1 and does not start with \<^verbatim>\<open>#\<close>. For a file that
  starts with a blank line, this blank line is taken as the title; the line \<^verbatim>\<open>Title\<close> is
  then read as the dimension line and \<^verbatim>\<open>int\<close> raises.
\<close>

theorem blank_line_taken_as_title:
  "skip_comments (fst (readline (file_text ['''', ''Title'', ''3 3 0''])))
                 (snd (readline (file_text ['''', ''Title'', ''3 3 0'']))) =
     Some ([CHR 0x0A], file_text [''Title'', ''3 3 0''])
   \<and> spy (file_text ['''', ''Title'', ''3 3 0'']) = Some (Inl InvalidLiteral)"
proof -
  have t: "skip_comments (fst (readline (file_text ['''', ''Title'', ''3 3 0''])))
                 (snd (readline (file_text ['''', ''Title'', ''3 3 0'']))) =
     Some ([CHR 0x0A], file_text [''Title'', ''3 3 0''])"
    by (simp add: skip_comments.simps file_text_def)
  have "unpack3 (split_sp (fst (readline (file_text [''Title'', ''3 3 0''])))) = Inl InvalidLiteral"
    by (simp add: file_text_def literal_defs)
  then have "spy (file_text ['''', ''Title'', ''3 3 0'']) = Some (Inl InvalidLiteral)"
    unfolding spy_def t by simp
  with t show ?thesis by (rule conjI)
qed

text \<open>
  C5 does not hold of the dimension line: with a fourth integer on it, as in the format
  \<^verbatim>\<open>m n z procs\<close> of the script's header comment, unpacking into three names raises
  (too many values to unpack).
\<close>

theorem fourth_integer_rejected:
  "spy (file_text [''Title'', ''3 3 2 4'', ''1 1 0'', ''2 2 1'']) = Some (Inl TooManyValues)"
proof -
  have t: "skip_comments (fst (readline (file_text [''Title'', ''3 3 2 4'', ''1 1 0'', ''2 2 1''])))
                 (snd (readline (file_text [''Title'', ''3 3 2 4'', ''1 1 0'', ''2 2 1'']))) =
     Some (''Title'' @ [CHR 0x0A], file_text [''3 3 2 4'', ''1 1 0'', ''2 2 1''])"
    by (simp add: skip_comments.simps file_text_def)
  have "unpack3 (split_sp (fst (readline (file_text [''3 3 2 4'', ''1 1 0'', ''2 2 1''])))) =
      Inl TooManyValues"
    by (simp add: file_text_def literal_defs)
  then show ?thesis unfolding spy_def t by simp
qed

text \<open>
  C7 does not hold of the loop that looks for the title: on a file that holds comment
  lines only, and on the empty file, it never ends, since at the end of the text
  \<^verbatim>\<open>readline\<close> returns the empty string again and again.
\<close>

theorem comment_only_file_never_ends:
  "spy (file_text [''# a comment'', ''# another'']) = None \<and> spy [] = None"
proof
  show "spy (file_text [''# a comment'', ''# another'']) = None"
    by (rule spy_comments_only) (simp add: file_text_def)
  show "spy [] = None"
    by (rule spy_comments_only) simp
qed

lemma short_sample_title:
  "skip_comments (fst (readline short_sample)) (snd (readline short_sample)) =
     Some (''Title'' @ [CHR 0x0A], file_text [''5 5 5'', ''1 1 0'', ''2 2 1'', ''3 3 2''])"
  by (simp add: short_sample_def skip_comments.simps file_text_def)

lemma short_sample_dims:
  "unpack3 (split_sp (fst (readline (file_text [''5 5 5'', ''1 1 0'', ''2 2 1'', ''3 3 2''])))) =
     Inr (5, 5, 5)"
  by (simp add: file_text_def literal_defs)

lemma short_sample_end:
  "nth_line 3 (snd (readline (file_text [''5 5 5'', ''1 1 0'', ''2 2 1'', ''3 3 2'']))) = []"
  by (simp add: file_text_def numeral_3_eq_3)

text \<open>
  C6: when the title and the dimension line have been read and one of the first
  \<open>nonzero_count\<close> data lines is missing (the text has ended, \<^verbatim>\<open>readline\<close> returns the
  empty string), has fewer than three white-space separated fields, or holds a token that
  is no integer literal, the run ends with an exception.
\<close>

theorem malformed_data_fails:
  assumes "skip_comments (fst (readline text)) (snd (readline text)) = Some (line, fin)"
    and "unpack3 (split_sp (fst (readline fin))) = Inr (m, n, nz)"
    and "k < nat nz"
    and "nth_line k (snd (readline fin)) = []
       \<or> nfields False (nth_line k (snd (readline fin))) < 3
       \<or> (\<exists>t\<in>set (split_sp (nth_line k (snd (readline fin)))). py_int t = None)"
  shows "\<exists>e. spy text = Some (Inl e)"
proof -
  from malformed_line_fails[OF assms(4)] obtain e
    where "draw_entry (nth_line k (snd (readline fin))) = Inl e" ..
  from draw_entries_fails[OF assms(3) this] obtain e'
    where "draw_entries (nat nz) (snd (readline fin)) = Inl e'" ..
  from spy_data_fails[OF assms(1,2) this] show ?thesis ..
qed

theorem malformed_data_fails_witness:
  "skip_comments (fst (readline short_sample)) (snd (readline short_sample)) =
     Some (''Title'' @ [CHR 0x0A], file_text [''5 5 5'', ''1 1 0'', ''2 2 1'', ''3 3 2''])
   \<and> unpack3 (split_sp (fst (readline (file_text [''5 5 5'', ''1 1 0'', ''2 2 1'', ''3 3 2''])))) =
       Inr (5, 5, 5)
   \<and> (3::nat) < nat 5
   \<and> nth_line 3 (snd (readline (file_text [''5 5 5'', ''1 1 0'', ''2 2 1'', ''3 3 2'']))) = []
   \<and> (\<exists>e. spy short_sample = Some (Inl e))"
proof -
  have k: "(3::nat) < nat 5" by simp
  have "\<exists>e. spy short_sample = Some (Inl e)"
    using short_sample_end
    by (intro malformed_data_fails[OF short_sample_title short_sample_dims k] disjI1)
  with short_sample_title short_sample_dims k short_sample_end show ?thesis by blast
qed

text \<open>
  C8 as stated does not hold: for the sample the variable \<^verbatim>\<open>title\<close> is the line as read,
  \<^verbatim>\<open>Title\<close> followed by the newline character, not the string \<^verbatim>\<open>Title\<close>.
\<close>

theorem sample_title_keeps_newline:
  "title (projr (the (spy sample))) = ''Title'' @ [CHR 0x0A]
   \<and> title (projr (the (spy sample))) \<noteq> ''Title''"
  by (simp add: spy_sample)

text \<open>
  C8, amended: for the sample the title is \<^verbatim>\<open>Title\<close> followed by the newline character,
  rows, cols and nonzero count are 3, 3 and 2, the entries are (1, 1, 0) and (2, 2, 1) in
  this order, and their squares have the colours of processor 0 and of processor 1.
\<close>

theorem sample_end_to_end:
  "spy sample = Some (Inr
     \<lparr>title = ''Title'' @ [CHR 0x0A], rows = 3, cols = 3, nonzero_count = 2,
      xlim = (1, 3), ylim = (3, 1),
      entries = [(1, 1, 0), (2, 2, 1)],
      patches =
        [\<lparr>xy = (11 / 10, 11 / 10), width = 4 / 5, height = 4 / 5, color = (0, 1, 1)\<rparr>,
         \<lparr>xy = (21 / 10, 21 / 10), width = 4 / 5, height = 4 / 5, color = (1, 0, 0)\<rparr>]\<rparr>)
   \<and> color_of_proc 0 = Inr (0, 1, 1) \<and> color_of_proc 1 = Inr (1, 0, 0)"
  using spy_sample color_of_proc_0 color_of_proc_1 by (intro conjI)

end
